theory Spec2Isabelle
  imports Main
begin

section \<open>Errors\<close>

text \<open>
  Every failure of a request handler is a raised \<^verbatim>\<open>HTTPException(status_code, detail)\<close>.
  \<open>IntegrityError\<close> is what the relational store raises when a commit violates a
  \<^verbatim>\<open>unique=True\<close> column of \<^verbatim>\<open>models.py\<close>; \<open>IndexError\<close> and \<open>KeyError\<close> are
  Python's out-of-range list read and missing dictionary key. \<open>OSError\<close> stands for
  the exceptions of that class which \<^verbatim>\<open>open\<close> raises (\<^verbatim>\<open>IsADirectoryError\<close>,
  \<^verbatim>\<open>FileNotFoundError\<close>, \<^verbatim>\<open>NotADirectoryError\<close>, \<^verbatim>\<open>PermissionError\<close>, a name too
  long), and \<open>ValueError\<close> is what it raises for a path with an embedded null character.
\<close>

datatype error =
  HTTPException nat string | IntegrityError | IndexError | KeyError | OSError | ValueError

text \<open>The names the specification gives to the exceptions the handlers raise.\<close>

definition DuplicateUsername :: error where
  "DuplicateUsername = HTTPException 400 ''Username already registered''"

definition DuplicateEmail :: error where
  "DuplicateEmail = HTTPException 400 ''Email already registered''"

definition Forbidden :: "string \<Rightarrow> error" where
  "Forbidden detail = HTTPException 403 detail"

definition NotFound :: "string \<Rightarrow> error" where
  "NotFound detail = HTTPException 404 detail"

text \<open>Python's \<^verbatim>\<open>str\<close> of an integer, as the f-strings of \<^verbatim>\<open>main.py\<close> use it.\<close>

definition digit_char :: "nat \<Rightarrow> char" where
  "digit_char d = ''0123456789'' ! d"

fun str_nat :: "nat \<Rightarrow> string" where
  "str_nat n = (if n < 10 then [digit_char n] else str_nat (n div 10) @ [digit_char (n mod 10)])"

declare str_nat.simps [simp del]

definition str_int :: "int \<Rightarrow> string" where
  "str_int i = (if i < 0 then CHR ''-'' # str_nat (nat (- i)) else str_nat (nat i))"

definition AlreadyRunning :: "int \<Rightarrow> string \<Rightarrow> error" where
  "AlreadyRunning document_id st =
     HTTPException 400
       (''Ingestion for document ID '' @ str_int document_id @ '' is already '' @ st @ ''.'')"

section \<open>Data model (\<^verbatim>\<open>models.py\<close>, \<^verbatim>\<open>schemas.py\<close>)\<close>

text \<open>A row of table \<^verbatim>\<open>users\<close>. The role column is a plain string.\<close>

record user =
  u_id :: int
  username :: string
  hashed_password :: string
  email :: string
  is_active :: bool
  role :: string

text \<open>A row of table \<^verbatim>\<open>documents\<close>.\<close>

record document =
  d_id :: int
  title :: string
  filename :: string
  upload_time :: int
  owner_id :: int

text \<open>
  \<^verbatim>\<open>schemas.UserCreate\<close> after validation. Field \<^verbatim>\<open>role: Optional[str] = "viewer"\<close>:
  a request that omits the field carries \<open>Some ''viewer''\<close>, one that sends an explicit
  null carries \<open>None\<close>.
\<close>

record user_create =
  uc_username :: string
  uc_email :: string
  uc_password :: string
  uc_role :: "string option"

datatype 'a field = Omitted | Null | Given 'a

definition UserCreate :: "string \<Rightarrow> string \<Rightarrow> string \<Rightarrow> string field \<Rightarrow> user_create" where
  "UserCreate un em pw r =
     \<lparr>uc_username = un, uc_email = em, uc_password = pw,
      uc_role = (case r of Omitted \<Rightarrow> Some ''viewer'' | Null \<Rightarrow> None | Given s \<Rightarrow> Some s)\<rparr>"

text \<open>\<^verbatim>\<open>schemas.IngestionTask\<close>: the status is a plain string, \<^verbatim>\<open>"pending"\<close> by default.\<close>

record ingestion_task =
  document_id :: int
  status :: string
  message :: "string option"

definition IngestionTask :: "int \<Rightarrow> string \<Rightarrow> ingestion_task" where
  "IngestionTask did st = \<lparr>document_id = did, status = st, message = None\<rparr>"

text \<open>
  The relational store: the two tables in insertion order, the next value of each
  autoincremented primary key, and the default of column \<^verbatim>\<open>upload_time\<close>
  (\<^verbatim>\<open>default=datetime.now(UTC)\<close>, evaluated once when \<^verbatim>\<open>models.py\<close> is loaded).
\<close>

record db =
  users :: "user list"
  documents :: "document list"
  next_user_id :: int
  next_document_id :: int
  upload_time_default :: int

section \<open>Persistence operations (\<^verbatim>\<open>crud.py\<close>)\<close>

definition get_user :: "db \<Rightarrow> int \<Rightarrow> user option" where
  "get_user d uid = find (\<lambda>u. u_id u = uid) (users d)"

definition get_user_by_username :: "db \<Rightarrow> string \<Rightarrow> user option" where
  "get_user_by_username d un = find (\<lambda>u. username u = un) (users d)"

definition get_user_by_email :: "db \<Rightarrow> string \<Rightarrow> user option" where
  "get_user_by_email d em = find (\<lambda>u. email u = em) (users d)"

text \<open>
  \<^verbatim>\<open>offset(skip).limit(limit)\<close> of the listing queries, for an offset and a limit that are
  not negative.
\<close>

definition get_users :: "db \<Rightarrow> nat \<Rightarrow> nat \<Rightarrow> user list" where
  "get_users d skip limit = take limit (drop skip (users d))"

text \<open>
  \<^verbatim>\<open>crud.create_user\<close>. The password hash comes from \<^verbatim>\<open>auth.get_password_hash\<close>,
  taken as a parameter. A \<open>None\<close> role is left out of the INSERT, so the column default
  \<^verbatim>\<open>"viewer"\<close> is stored. The commit fails when a unique column would repeat.
\<close>

definition crud_create_user :: "(string \<Rightarrow> string) \<Rightarrow> db \<Rightarrow> user_create \<Rightarrow> error + (user \<times> db)" where
  "crud_create_user get_password_hash d uc =
     (let db_user = \<lparr>u_id = next_user_id d,
                      username = uc_username uc,
                      hashed_password = get_password_hash (uc_password uc),
                      email = uc_email uc,
                      is_active = True,
                      role = (case uc_role uc of None \<Rightarrow> ''viewer'' | Some r \<Rightarrow> r)\<rparr>
      in if list_ex (\<lambda>x. username x = username db_user \<or> email x = email db_user) (users d)
         then Inl IntegrityError
         else Inr (db_user, d\<lparr>users := users d @ [db_user], next_user_id := next_user_id d + 1\<rparr>))"

definition crud_update_user_role :: "db \<Rightarrow> int \<Rightarrow> string \<Rightarrow> user option \<times> db" where
  "crud_update_user_role d uid r =
     (case get_user d uid of
        None \<Rightarrow> (None, d)
      | Some db_user \<Rightarrow>
          (Some (db_user\<lparr>role := r\<rparr>),
           d\<lparr>users := map (\<lambda>x. if u_id x = uid then x\<lparr>role := r\<rparr> else x) (users d)\<rparr>))"

definition crud_delete_user :: "db \<Rightarrow> int \<Rightarrow> user option \<times> db" where
  "crud_delete_user d uid =
     (case get_user d uid of
        None \<Rightarrow> (None, d)
      | Some db_user \<Rightarrow> (Some db_user, d\<lparr>users := filter (\<lambda>x. u_id x \<noteq> uid) (users d)\<rparr>))"

definition get_document :: "db \<Rightarrow> int \<Rightarrow> document option" where
  "get_document d did = find (\<lambda>x. d_id x = did) (documents d)"

definition get_documents :: "db \<Rightarrow> nat \<Rightarrow> nat \<Rightarrow> document list" where
  "get_documents d skip limit = take limit (drop skip (documents d))"

definition crud_create_document :: "db \<Rightarrow> string \<Rightarrow> int \<Rightarrow> string \<Rightarrow> document \<times> db" where
  "crud_create_document d doc_title owner fname =
     (let db_document = \<lparr>d_id = next_document_id d, title = doc_title, filename = fname,
                          upload_time = upload_time_default d, owner_id = owner\<rparr>
      in (db_document,
          d\<lparr>documents := documents d @ [db_document],
            next_document_id := next_document_id d + 1\<rparr>))"

definition crud_delete_document :: "db \<Rightarrow> int \<Rightarrow> document option \<times> db" where
  "crud_delete_document d did =
     (case get_document d did of
        None \<Rightarrow> (None, d)
      | Some db_document \<Rightarrow>
          (Some db_document, d\<lparr>documents := filter (\<lambda>x. d_id x \<noteq> did) (documents d)\<rparr>))"

section \<open>Request handlers (\<^verbatim>\<open>main.py\<close>)\<close>

text \<open>
  A handler runs after its dependencies are resolved: \<open>current_user\<close> is the user that
  \<^verbatim>\<open>auth.get_current_active_user\<close> returned for the request. A handler returns its
  result (or the exception it raised) together with the state it leaves behind.
\<close>

subsection \<open>Users\<close>

definition create_user :: "(string \<Rightarrow> string) \<Rightarrow> db \<Rightarrow> user_create \<Rightarrow> (error + user) \<times> db" where
  "create_user get_password_hash d uc =
     (case get_user_by_username d (uc_username uc) of
        Some _ \<Rightarrow> (Inl (HTTPException 400 ''Username already registered''), d)
      | None \<Rightarrow>
          (case get_user_by_email d (uc_email uc) of
             Some _ \<Rightarrow> (Inl (HTTPException 400 ''Email already registered''), d)
           | None \<Rightarrow>
               (case crud_create_user get_password_hash d uc of
                  Inl e \<Rightarrow> (Inl e, d)
                | Inr (db_user, d') \<Rightarrow> (Inr db_user, d'))))"

definition read_users :: "db \<Rightarrow> nat \<Rightarrow> nat \<Rightarrow> user \<Rightarrow> error + user list" where
  "read_users d skip limit current_user =
     (if role current_user \<noteq> ''admin''
      then Inl (HTTPException 403 ''Not authorized to access user list'')
      else Inr (get_users d skip limit))"

definition update_user_role :: "db \<Rightarrow> int \<Rightarrow> string \<Rightarrow> user \<Rightarrow> (error + user) \<times> db" where
  "update_user_role d user_id new_role current_user =
     (if role current_user \<noteq> ''admin''
      then (Inl (HTTPException 403 ''Not authorized to update user roles''), d)
      else (case crud_update_user_role d user_id new_role of
              (None, d') \<Rightarrow> (Inl (HTTPException 404 ''User not found''), d')
            | (Some db_user, d') \<Rightarrow> (Inr db_user, d')))"

definition delete_user :: "db \<Rightarrow> int \<Rightarrow> user \<Rightarrow> (error + user) \<times> db" where
  "delete_user d user_id current_user =
     (if role current_user \<noteq> ''admin''
      then (Inl (HTTPException 403 ''Not authorized to delete users''), d)
      else (case crud_delete_user d user_id of
              (None, d') \<Rightarrow> (Inl (HTTPException 404 ''User not found''), d')
            | (Some db_user, d') \<Rightarrow> (Inr db_user, d')))"

subsection \<open>Documents\<close>

text \<open>
  The stored files are a map from path to file content. \<open>os_path_join\<close> is
  \<^verbatim>\<open>os.path.join\<close> on two components (POSIX): an absolute second component replaces
  the first.
\<close>

type_synonym files = "string \<rightharpoonup> string"

definition os_path_join :: "string \<Rightarrow> string \<Rightarrow> string" where
  "os_path_join a b =
     (case b of
        c # _ \<Rightarrow> if c = CHR ''/'' then b
                 else if a = [] \<or> last a = CHR ''/'' then a @ b else a @ ''/'' @ b
      | [] \<Rightarrow> if a = [] \<or> last a = CHR ''/'' then a else a @ ''/'')"

text \<open>Python's \<^verbatim>\<open>s.split(sep)\<close> for a one-character separator: never the empty list.\<close>

fun split :: "char \<Rightarrow> string \<Rightarrow> string list" where
  "split sep [] = [[]]"
| "split sep (c # cs) =
     (if c = sep then [] # split sep cs
      else (case split sep cs of
              [] \<Rightarrow> [[c]]
            | p # ps \<Rightarrow> (c # p) # ps))"

text \<open>
  \<^verbatim>\<open>file.filename.split(".")[0] if "." in file.filename else file.filename\<close>
\<close>

definition document_title :: "string \<Rightarrow> error + string" where
  "document_title fname =
     (if CHR ''.'' \<in> set fname
      then (case split (CHR ''.'') fname of [] \<Rightarrow> Inl IndexError | p # _ \<Rightarrow> Inr p)
      else Inr fname)"

text \<open>
  \<^verbatim>\<open>with open(file_location, "wb") as buffer: shutil.copyfileobj(file.file, buffer)\<close>.
  \<^verbatim>\<open>open\<close> raises \<^verbatim>\<open>ValueError\<close> for a path with an embedded null character. It raises
  an \<^verbatim>\<open>OSError\<close> on every file system when the last component of the path is empty,
  \<^verbatim>\<open>.\<close> or \<^verbatim>\<open>..\<close>: such a path names a directory (\<^verbatim>\<open>IsADirectoryError\<close>) or nothing
  (\<^verbatim>\<open>FileNotFoundError\<close>, \<^verbatim>\<open>NotADirectoryError\<close>). Whether any other path can be
  created or truncated as a regular file depends on the file system the server runs on
  (the directories on the path, an existing directory of that name, permissions, the
  limit on the length of a name): the predicate \<open>writable\<close> is a parameter. A failing
  \<^verbatim>\<open>open\<close> leaves the stored files as they were; copying the bytes into the opened
  file is taken to succeed and replaces what was stored under the path.
\<close>

definition last_component :: "string \<Rightarrow> string" where
  "last_component p = (case rev (split (CHR ''/'') p) of [] \<Rightarrow> [] | c # _ \<Rightarrow> c)"

definition open_wb :: "(string \<Rightarrow> bool) \<Rightarrow> files \<Rightarrow> string \<Rightarrow> string \<Rightarrow> error + files" where
  "open_wb writable fs p content =
     (if CHR 0x00 \<in> set p then Inl ValueError
      else if last_component p \<in> set ['''', ''.'', ''..''] then Inl OSError
      else if writable p then Inr (fs(p \<mapsto> content))
      else Inl OSError)"

text \<open>
  The upload handler. The file is written first; an exception of the write leaves the
  handler before the title is computed and before any row is inserted.
\<close>

definition create_document ::
  "(string \<Rightarrow> bool) \<Rightarrow> string \<Rightarrow> db \<Rightarrow> files \<Rightarrow> string \<Rightarrow> string \<Rightarrow> user \<Rightarrow>
     (error + document) \<times> db \<times> files" where
  "create_document writable documents_upload_path d fs fname content current_user =
     (let file_location = os_path_join documents_upload_path fname
      in case open_wb writable fs file_location content of
           Inl e \<Rightarrow> (Inl e, d, fs)
         | Inr fs' \<Rightarrow>
             (case document_title fname of
                Inl e \<Rightarrow> (Inl e, d, fs')
              | Inr t \<Rightarrow>
                  (case crud_create_document d t (u_id current_user) fname of
                     (db_document, d') \<Rightarrow> (Inr db_document, d', fs'))))"

definition read_documents :: "db \<Rightarrow> nat \<Rightarrow> nat \<Rightarrow> user \<Rightarrow> document list" where
  "read_documents d skip limit current_user = get_documents d skip limit"

definition read_document :: "db \<Rightarrow> int \<Rightarrow> user \<Rightarrow> error + document" where
  "read_document d did current_user =
     (case get_document d did of
        None \<Rightarrow> Inl (HTTPException 404 ''Document not found'')
      | Some db_document \<Rightarrow> Inr db_document)"

definition delete_document :: "db \<Rightarrow> int \<Rightarrow> user \<Rightarrow> (error + document option) \<times> db" where
  "delete_document d did current_user =
     (case get_document d did of
        None \<Rightarrow> (Inl (HTTPException 404 ''Document not found''), d)
      | Some db_document \<Rightarrow>
          (case crud_delete_document d did of
             (deleted_document, d') \<Rightarrow> (Inr deleted_document, d')))"

text \<open>\<^verbatim>\<open>FileResponse(path, filename)\<close>: the path served and the name it is served under.\<close>

definition download_document ::
  "string \<Rightarrow> db \<Rightarrow> files \<Rightarrow> int \<Rightarrow> user \<Rightarrow> error + (string \<times> string)" where
  "download_document documents_upload_path d fs did current_user =
     (case get_document d did of
        None \<Rightarrow> Inl (HTTPException 404 ''Document not found'')
      | Some db_document \<Rightarrow>
          (let file_path = os_path_join documents_upload_path (filename db_document)
           in if fs file_path = None
              then Inl (HTTPException 404 ''File not found on server'')
              else Inr (file_path, filename db_document)))"

subsection \<open>Ingestion tracker\<close>

text \<open>The module-level dictionary \<^verbatim>\<open>ingestion_tasks: Dict[int, IngestionTask]\<close>.\<close>

type_synonym tasks = "int \<rightharpoonup> ingestion_task"

text \<open>
  The two assignments of the background body,
  \<^verbatim>\<open>ingestion_tasks[document_id].status = v\<close> and
  \<^verbatim>\<open>ingestion_tasks[document_id].message = v\<close>: the subscript raises \<open>KeyError\<close>
  on a missing key.
\<close>

definition assign_status :: "tasks \<Rightarrow> int \<Rightarrow> string \<Rightarrow> error + tasks" where
  "assign_status ts did v =
     (case ts did of None \<Rightarrow> Inl KeyError | Some t \<Rightarrow> Inr (ts(did \<mapsto> t\<lparr>status := v\<rparr>)))"

definition assign_message :: "tasks \<Rightarrow> int \<Rightarrow> string \<Rightarrow> error + tasks" where
  "assign_message ts did v =
     (case ts did of None \<Rightarrow> Inl KeyError | Some t \<Rightarrow> Inr (ts(did \<mapsto> t\<lparr>message := Some v\<rparr>)))"

text \<open>
  \<^verbatim>\<open>process_ingestion_task\<close>, the background body. The result lists the dictionary
  after each of its assignments, in order (the simulated work, a five second sleep, lies
  between the first and the second); the empty list is the branch that only prints.
\<close>

definition process_ingestion_task :: "tasks \<Rightarrow> int \<Rightarrow> error + tasks list" where
  "process_ingestion_task ts did =
     (if ts did \<noteq> None
      then (case assign_status ts did ''processing'' of
              Inl e \<Rightarrow> Inl e
            | Inr ts1 \<Rightarrow>
                (case assign_status ts1 did ''completed'' of
                   Inl e \<Rightarrow> Inl e
                 | Inr ts2 \<Rightarrow>
                     (case assign_message ts2 did ''Ingestion completed successfully.'' of
                        Inl e \<Rightarrow> Inl e
                      | Inr ts3 \<Rightarrow> Inr [ts1, ts2, ts3])))
      else Inr [])"

text \<open>
  \<^verbatim>\<open>trigger_ingestion\<close>. The third component of the result lists the document ids handed
  to \<^verbatim>\<open>background_tasks.add_task(process_ingestion_task, _)\<close>.
\<close>

definition trigger_ingestion ::
  "db \<Rightarrow> tasks \<Rightarrow> int \<Rightarrow> user \<Rightarrow> (error + ingestion_task) \<times> tasks \<times> int list" where
  "trigger_ingestion d ts did current_user =
     (case get_document d did of
        None \<Rightarrow> (Inl (HTTPException 404 ''Document not found''), ts, [])
      | Some db_document \<Rightarrow>
          (let ingestion_task = IngestionTask did ''pending'';
               accepted = (Inr ingestion_task, ts(did \<mapsto> ingestion_task), [did])
           in case ts did of
                None \<Rightarrow> accepted
              | Some t \<Rightarrow>
                  if status t \<in> set [''pending'', ''processing'']
                  then (Inl (AlreadyRunning did (status t)), ts, [])
                  else accepted))"

definition get_ingestion_status :: "tasks \<Rightarrow> user \<Rightarrow> tasks" where
  "get_ingestion_status ts current_user = ts"

text \<open>
  The dictionaries the running system can hold. It starts empty
  (\<^verbatim>\<open>ingestion_tasks = {}\<close>). A trigger request is served against any store and for any
  user; a background execution runs its body, and every dictionary it passes through can
  be observed; a status query returns the dictionary. The last two rules let the single
  assignments of background executions happen in any order between other steps, which
  covers every interleaving of executions with requests.
\<close>

inductive reachable :: "tasks \<Rightarrow> bool" where
  initial: "reachable Map.empty"
| trigger: "reachable ts \<Longrightarrow> trigger_ingestion d ts did u = (r, ts', sched) \<Longrightarrow> reachable ts'"
| run: "reachable ts \<Longrightarrow> process_ingestion_task ts did = Inr tr \<Longrightarrow> ts' \<in> set tr \<Longrightarrow> reachable ts'"
| query: "reachable ts \<Longrightarrow> get_ingestion_status ts u = ts' \<Longrightarrow> reachable ts'"
| status_write:
    "reachable ts \<Longrightarrow> v \<in> set [''processing'', ''completed''] \<Longrightarrow>
     assign_status ts did v = Inr ts' \<Longrightarrow> reachable ts'"
| message_write:
    "reachable ts \<Longrightarrow>
     assign_message ts did ''Ingestion completed successfully.'' = Inr ts' \<Longrightarrow> reachable ts'"

text \<open>The statuses a task of the running system is ever seen in.\<close>

definition statuses_ok :: "tasks \<Rightarrow> bool" where
  "statuses_ok ts =
     (\<forall>did t. ts did = Some t \<longrightarrow> status t \<in> set [''pending'', ''processing'', ''completed''])"

section \<open>The role invariant of the data model\<close>

text \<open>
  The three roles the comment on column \<^verbatim>\<open>role\<close> in \<^verbatim>\<open>models.py\<close> lists, and the
  property that every stored user has one of them.
\<close>

definition valid_role :: "string \<Rightarrow> bool" where
  "valid_role r = (r \<in> set [''admin'', ''editor'', ''viewer''])"

definition roles_valid :: "db \<Rightarrow> bool" where
  "roles_valid d = list_all (\<lambda>u. valid_role (role u)) (users d)"

section \<open>Credential service\<close>

text \<open>
  Modelled from the spec: \<^verbatim>\<open>auth.py\<close>, which holds the password hashing and the token
  functions (\<^verbatim>\<open>get_password_hash\<close>, \<^verbatim>\<open>verify_password\<close>, \<^verbatim>\<open>create_access_token\<close>
  and the token check), is not among the source files. The definitions below follow
  section 4.1 of the specification and keep its names.

  \<open>hash\<close> is a salted one-way transform: the digest function \<open>kdf\<close> and the salt drawn for
  the call are parameters, and the hash carries its salt, so that equal passwords may
  hash differently and still verify. \<open>verify\<close> recomputes the digest under the salt of
  the hash and compares.
\<close>

definition hash :: "('s \<Rightarrow> string \<Rightarrow> 'h) \<Rightarrow> 's \<Rightarrow> string \<Rightarrow> 's \<times> 'h" where
  "hash kdf salt password = (salt, kdf salt password)"

definition verify :: "('s \<Rightarrow> string \<Rightarrow> 'h) \<Rightarrow> string \<Rightarrow> 's \<times> 'h \<Rightarrow> bool" where
  "verify kdf password h = (kdf (fst h) password = snd h)"

text \<open>
  Modelled from the spec: a token embeds a subject and an absolute expiry and carries a
  signature over that payload under the server secret. The signing function \<open>sign\<close> and
  the current time are parameters. The time-to-live is a duration, a natural number of
  time units (the login handler passes the configured number of minutes);
  \<open>issue_token\<close> sets the expiry to \<open>now + ttl\<close>. \<open>verify_token\<close> fails with
  \<open>InvalidToken\<close> when the signature does not verify, with \<open>ExpiredToken\<close> when the
  current time exceeds the embedded expiry, and returns the subject otherwise.
\<close>

record token =
  tok_sub :: string
  tok_exp :: int
  tok_sig :: string

datatype token_error = InvalidToken | ExpiredToken

definition issue_token ::
  "(string \<Rightarrow> string \<times> int \<Rightarrow> string) \<Rightarrow> string \<Rightarrow> int \<Rightarrow> string \<Rightarrow> nat \<Rightarrow> token" where
  "issue_token sign secret now subject ttl =
     \<lparr>tok_sub = subject, tok_exp = now + int ttl,
      tok_sig = sign secret (subject, now + int ttl)\<rparr>"

definition verify_token ::
  "(string \<Rightarrow> string \<times> int \<Rightarrow> string) \<Rightarrow> string \<Rightarrow> int \<Rightarrow> token \<Rightarrow> token_error + string" where
  "verify_token sign secret now tok =
     (if tok_sig tok \<noteq> sign secret (tok_sub tok, tok_exp tok) then Inl InvalidToken
      else if now > tok_exp tok then Inl ExpiredToken
      else Inr (tok_sub tok))"

section \<open>Example data\<close>

definition alice :: user where
  "alice = \<lparr>u_id = 1, username = ''alice'', hashed_password = ''h1'',
            email = ''alice@example.com'', is_active = True, role = ''viewer''\<rparr>"

definition admin2 :: user where
  "admin2 = \<lparr>u_id = 2, username = ''admin2'', hashed_password = ''h2'',
             email = ''admin2@example.com'', is_active = True, role = ''admin''\<rparr>"

definition report :: document where
  "report = \<lparr>d_id = 1, title = ''report'', filename = ''report.txt'', upload_time = 0,
             owner_id = 2\<rparr>"

definition empty_db :: db where
  "empty_db = \<lparr>users = [], documents = [], next_user_id = 1, next_document_id = 1,
               upload_time_default = 0\<rparr>"

definition example_db :: db where
  "example_db = \<lparr>users = [alice, admin2], documents = [report], next_user_id = 3,
                 next_document_id = 2, upload_time_default = 0\<rparr>"

definition toy_sign :: "string \<Rightarrow> string \<times> int \<Rightarrow> string" where
  "toy_sign secret payload = secret @ ''|'' @ fst payload @ ''|'' @ str_int (snd payload)"

text \<open>A file system on which every path that can name a regular file can be written.\<close>

definition all_writable :: "string \<Rightarrow> bool" where
  "all_writable p = True"

section \<open>Auxiliary facts\<close>

lemma find_SomeD: "find P xs = Some x \<Longrightarrow> P x \<and> x \<in> set xs"
  by (induction xs) (auto split: if_splits)

lemma find_map_same_key:
  assumes "\<And>x. k (f x) = k x"
  shows "find (\<lambda>x. k x = a) (map f xs) = map_option f (find (\<lambda>x. k x = a) xs)"
  using assms by (induction xs) auto

lemma find_filter_removed: "find (\<lambda>x. k x = a) (filter (\<lambda>x. k x \<noteq> a) xs) = None"
  by (induction xs) auto

lemma takeWhile_absent: "c \<notin> set s \<Longrightarrow> takeWhile (\<lambda>x. x \<noteq> c) s = s"
  by (induction s) auto

lemma split_hd: "\<exists>ps. split sep s = takeWhile (\<lambda>c. c \<noteq> sep) s # ps"
  by (induction s) (auto split: list.splits)

lemma document_title_eq:
  "document_title fname = Inr (takeWhile (\<lambda>c. c \<noteq> CHR ''.'') fname)"
proof -
  obtain ps where "split (CHR ''.'') fname = takeWhile (\<lambda>c. c \<noteq> CHR ''.'') fname # ps"
    using split_hd by blast
  then show ?thesis by (simp add: document_title_def takeWhile_absent)
qed

lemma example_lookups:
  "get_document example_db 1 = Some report"
  "get_document empty_db 7 = None"
  "get_user example_db 1 = Some alice"
  "get_user example_db 9 = None"
  "role alice = ''viewer''"
  "role admin2 = ''admin''"
  by (simp_all add: get_document_def get_user_def example_db_def empty_db_def report_def
      alice_def admin2_def)

subsection \<open>Statuses are preserved by every step of the tracker\<close>

lemma statuses_ok_upd:
  "statuses_ok ts \<Longrightarrow> status t \<in> set [''pending'', ''processing'', ''completed''] \<Longrightarrow>
   statuses_ok (ts(did \<mapsto> t))"
  by (simp add: statuses_ok_def)

lemma statuses_ok_assign_status:
  "statuses_ok ts \<Longrightarrow> assign_status ts did v = Inr ts' \<Longrightarrow>
   v \<in> set [''pending'', ''processing'', ''completed''] \<Longrightarrow> statuses_ok ts'"
  by (auto simp: assign_status_def intro!: statuses_ok_upd split: option.splits)

lemma statuses_ok_assign_message:
  "statuses_ok ts \<Longrightarrow> assign_message ts did v = Inr ts' \<Longrightarrow> statuses_ok ts'"
  by (fastforce simp: assign_message_def statuses_ok_def split: option.splits if_splits)

lemma statuses_ok_trigger:
  "statuses_ok ts \<Longrightarrow> trigger_ingestion d ts did u = (r, ts', sched) \<Longrightarrow> statuses_ok ts'"
  by (auto simp: trigger_ingestion_def IngestionTask_def Let_def intro!: statuses_ok_upd
      split: option.splits if_splits)

lemma statuses_ok_run:
  assumes "statuses_ok ts" and "process_ingestion_task ts did = Inr tr" and "ts' \<in> set tr"
  shows "statuses_ok ts'"
proof (cases "ts did")
  case None
  with assms show ?thesis by (simp add: process_ingestion_task_def)
next
  case (Some t)
  from assms(2) Some obtain ts1 ts2 ts3 where
    s1: "assign_status ts did ''processing'' = Inr ts1" and
    s2: "assign_status ts1 did ''completed'' = Inr ts2" and
    s3: "assign_message ts2 did ''Ingestion completed successfully.'' = Inr ts3" and
    tr: "tr = [ts1, ts2, ts3]"
    by (auto simp: process_ingestion_task_def split: sum.splits)
  have o1: "statuses_ok ts1" using assms(1) s1 by (rule statuses_ok_assign_status) simp
  have o2: "statuses_ok ts2" using o1 s2 by (rule statuses_ok_assign_status) simp
  have o3: "statuses_ok ts3" using o2 s3 by (rule statuses_ok_assign_message)
  from assms(3) tr o1 o2 o3 show ?thesis by auto
qed

lemma reachable_statuses_ok: "reachable ts \<Longrightarrow> statuses_ok ts"
proof (induction rule: reachable.induct)
  case initial
  show ?case by (simp add: statuses_ok_def)
next
  case (trigger ts d did u r ts' sched)
  then show ?case by (blast intro: statuses_ok_trigger)
next
  case (run ts did tr ts')
  then show ?case by (blast intro: statuses_ok_run)
next
  case (query ts u ts')
  then show ?case by (simp add: get_ingestion_status_def)
next
  case (status_write ts v did ts')
  from status_write.IH status_write.hyps(3) show ?case
    by (rule statuses_ok_assign_status) (use status_write.hyps(2) in auto)
next
  case (message_write ts did ts')
  then show ?case by (blast intro: statuses_ok_assign_message)
qed

section \<open>The claims\<close>

text \<open>
  Claim C1 (as amended). For a document id whose document metadata exists: when the
  dictionary holds an entry for the id with status \<open>pending\<close> or \<open>processing\<close>, the trigger
  fails with \<open>AlreadyRunning\<close>, the dictionary is unchanged and nothing is scheduled;
  otherwise (no entry, or an entry with any other status) it stores a new entry with
  status \<open>pending\<close>, returns that entry and schedules one background execution. For a
  document id with no document metadata it fails with \<open>NotFound\<close> and leaves the
  dictionary unchanged.
\<close>

theorem trigger_ingestion_cases:
  "(get_document d did = None \<longrightarrow>
      trigger_ingestion d ts did u = (Inl (NotFound ''Document not found''), ts, []))
   \<and> (get_document d did \<noteq> None \<and> ts did = Some t
        \<and> status t \<in> {''pending'', ''processing''} \<longrightarrow>
      trigger_ingestion d ts did u = (Inl (AlreadyRunning did (status t)), ts, []))
   \<and> (get_document d did \<noteq> None
        \<and> (ts did = None \<or> (\<exists>t'. ts did = Some t' \<and> status t' \<notin> {''pending'', ''processing''})) \<longrightarrow>
      trigger_ingestion d ts did u =
        (Inr (IngestionTask did ''pending''), ts(did \<mapsto> IngestionTask did ''pending''), [did]))"
  by (auto simp: trigger_ingestion_def NotFound_def Let_def split: option.splits)

theorem trigger_ingestion_cases_witness:
  "get_document example_db 1 \<noteq> None
   \<and> trigger_ingestion example_db Map.empty 1 alice =
       (Inr (IngestionTask 1 ''pending''), [1 \<mapsto> IngestionTask 1 ''pending''], [1])
   \<and> trigger_ingestion example_db [1 \<mapsto> IngestionTask 1 ''pending''] 1 alice =
       (Inl (AlreadyRunning 1 ''pending''), [1 \<mapsto> IngestionTask 1 ''pending''], [])
   \<and> trigger_ingestion example_db [1 \<mapsto> IngestionTask 1 ''completed''] 1 alice =
       (Inr (IngestionTask 1 ''pending''), [1 \<mapsto> IngestionTask 1 ''pending''], [1])
   \<and> get_document empty_db 7 = None
   \<and> trigger_ingestion empty_db [7 \<mapsto> IngestionTask 7 ''pending''] 7 alice =
       (Inl (NotFound ''Document not found''), [7 \<mapsto> IngestionTask 7 ''pending''], [])"
  using
    trigger_ingestion_cases [of example_db 1 Map.empty alice "IngestionTask 1 ''pending''"]
    trigger_ingestion_cases [of example_db 1 "[1 \<mapsto> IngestionTask 1 ''pending'']" alice
      "IngestionTask 1 ''pending''"]
    trigger_ingestion_cases [of example_db 1 "[1 \<mapsto> IngestionTask 1 ''completed'']" alice
      "IngestionTask 1 ''completed''"]
    trigger_ingestion_cases [of empty_db 7 "[7 \<mapsto> IngestionTask 7 ''pending'']" alice
      "IngestionTask 7 ''pending''"]
  by (simp add: example_lookups IngestionTask_def)

theorem trigger_ingestion_missing_document_counterexample:
  "(Map.empty :: tasks) 7 = None
   \<and> trigger_ingestion empty_db Map.empty 7 alice =
       (Inl (HTTPException 404 ''Document not found''), Map.empty, [])
   \<and> fst (snd (trigger_ingestion empty_db Map.empty 7 alice)) 7 = None"
  by (simp add: trigger_ingestion_def example_lookups)

text \<open>
  Claim C2. The background body, for an id present in the dictionary, first sets the
  entry's status to \<open>processing\<close>, then to \<open>completed\<close>, and last stores the message
  "Ingestion completed successfully."; the other fields and the other entries are
  untouched. For an id absent from the dictionary it makes no assignment and raises
  nothing.
\<close>

theorem process_ingestion_task_trace:
  "(ts did = Some t \<longrightarrow>
      process_ingestion_task ts did =
        Inr [ts(did \<mapsto> t\<lparr>status := ''processing''\<rparr>),
             ts(did \<mapsto> t\<lparr>status := ''completed''\<rparr>),
             ts(did \<mapsto> t\<lparr>status := ''completed'',
                           message := Some ''Ingestion completed successfully.''\<rparr>)])
   \<and> (ts did = None \<longrightarrow> process_ingestion_task ts did = Inr [])"
  by (simp add: process_ingestion_task_def assign_status_def assign_message_def)

theorem process_ingestion_task_trace_witness:
  "process_ingestion_task [1 \<mapsto> IngestionTask 1 ''pending''] 1 =
     Inr [[1 \<mapsto> \<lparr>document_id = 1, status = ''processing'', message = None\<rparr>],
          [1 \<mapsto> \<lparr>document_id = 1, status = ''completed'', message = None\<rparr>],
          [1 \<mapsto> \<lparr>document_id = 1, status = ''completed'',
                 message = Some ''Ingestion completed successfully.''\<rparr>]]
   \<and> process_ingestion_task [1 \<mapsto> IngestionTask 1 ''pending''] 2 =
       Inr []"
  using
    process_ingestion_task_trace [of "[1 \<mapsto> IngestionTask 1 ''pending'']" 1
      "IngestionTask 1 ''pending''"]
    process_ingestion_task_trace [of "[1 \<mapsto> IngestionTask 1 ''pending'']" 2]
  by (simp add: IngestionTask_def)

text \<open>
  Claim C3. A caller whose role is not \<open>admin\<close> gets \<open>Forbidden\<close> from role update and from
  user deletion, whether or not the target exists, and the store is unchanged. An \<open>admin\<close>
  caller gets \<open>NotFound\<close> for a user id with no record; for an existing target the role
  update returns the user with the new role (and the store then holds it), and the
  deletion returns the removed user (and the store no longer holds the id).
\<close>

theorem user_admin_operations:
  "(role cu \<noteq> ''admin'' \<longrightarrow>
      update_user_role d uid r cu = (Inl (Forbidden ''Not authorized to update user roles''), d)
    \<and> delete_user d uid cu = (Inl (Forbidden ''Not authorized to delete users''), d))
   \<and> (role cu = ''admin'' \<and> get_user d uid = None \<longrightarrow>
      update_user_role d uid r cu = (Inl (NotFound ''User not found''), d)
    \<and> delete_user d uid cu = (Inl (NotFound ''User not found''), d))
   \<and> (role cu = ''admin'' \<and> get_user d uid = Some t \<longrightarrow>
      fst (update_user_role d uid r cu) = Inr (t\<lparr>role := r\<rparr>)
    \<and> get_user (snd (update_user_role d uid r cu)) uid = Some (t\<lparr>role := r\<rparr>)
    \<and> fst (delete_user d uid cu) = Inr t
    \<and> get_user (snd (delete_user d uid cu)) uid = None)"
  by (auto simp: update_user_role_def delete_user_def Forbidden_def NotFound_def
      crud_update_user_role_def crud_delete_user_def get_user_def
      find_map_same_key [where k = u_id] find_filter_removed [where k = u_id]
      dest: find_SomeD)

theorem user_admin_operations_witness:
  "role alice \<noteq> ''admin''
   \<and> update_user_role example_db 9 ''editor'' alice =
       (Inl (Forbidden ''Not authorized to update user roles''), example_db)
   \<and> delete_user example_db 2 alice =
       (Inl (Forbidden ''Not authorized to delete users''), example_db)
   \<and> role admin2 = ''admin'' \<and> get_user example_db 9 = None
   \<and> update_user_role example_db 9 ''editor'' admin2 =
       (Inl (NotFound ''User not found''), example_db)
   \<and> delete_user example_db 9 admin2 = (Inl (NotFound ''User not found''), example_db)
   \<and> get_user example_db 1 = Some alice
   \<and> fst (update_user_role example_db 1 ''editor'' admin2) = Inr (alice\<lparr>role := ''editor''\<rparr>)
   \<and> fst (delete_user example_db 1 admin2) = Inr alice
   \<and> get_user (snd (delete_user example_db 1 admin2)) 1 = None"
  using
    user_admin_operations [of alice example_db 9 "''editor''"]
    user_admin_operations [of alice example_db 2 "''editor''"]
    user_admin_operations [of admin2 example_db 9 "''editor''"]
    user_admin_operations [of admin2 example_db 1 "''editor''" alice]
  by (simp add: example_lookups)

text \<open>
  Claim C4. Registration first looks the username up and fails with \<open>DuplicateUsername\<close>
  when it is taken; only then it looks the email up and fails with \<open>DuplicateEmail\<close> when
  that is taken; the store is unchanged on either failure. Otherwise the new user is
  appended to the store under the next id and returned.
\<close>

theorem create_user_cases:
  "(get_user_by_username d (uc_username uc) \<noteq> None \<longrightarrow>
      create_user h d uc = (Inl DuplicateUsername, d))
   \<and> (get_user_by_username d (uc_username uc) = None
        \<and> get_user_by_email d (uc_email uc) \<noteq> None \<longrightarrow>
      create_user h d uc = (Inl DuplicateEmail, d))
   \<and> (get_user_by_username d (uc_username uc) = None
        \<and> get_user_by_email d (uc_email uc) = None \<longrightarrow>
      (\<exists>new. create_user h d uc =
              (Inr new, d\<lparr>users := users d @ [new], next_user_id := next_user_id d + 1\<rparr>)
           \<and> u_id new = next_user_id d \<and> username new = uc_username uc
           \<and> email new = uc_email uc \<and> hashed_password new = h (uc_password uc)
           \<and> is_active new
           \<and> role new = (case uc_role uc of None \<Rightarrow> ''viewer'' | Some r \<Rightarrow> r)))"
  by (auto simp: create_user_def DuplicateUsername_def DuplicateEmail_def crud_create_user_def
      get_user_by_username_def get_user_by_email_def Let_def list_ex_iff find_None_iff
      split: option.splits dest: find_SomeD)

theorem create_user_cases_witness:
  "get_user_by_username example_db ''alice'' \<noteq> None
   \<and> create_user (\<lambda>p. p) example_db (UserCreate ''alice'' ''admin2@example.com'' ''pw'' Omitted) =
       (Inl DuplicateUsername, example_db)
   \<and> get_user_by_username example_db ''bob'' = None
   \<and> get_user_by_email example_db ''alice@example.com'' \<noteq> None
   \<and> create_user (\<lambda>p. p) example_db (UserCreate ''bob'' ''alice@example.com'' ''pw'' Omitted) =
       (Inl DuplicateEmail, example_db)
   \<and> get_user_by_email example_db ''bob@example.com'' = None
   \<and> fst (create_user (\<lambda>p. p) example_db (UserCreate ''bob'' ''bob@example.com'' ''pw'' Omitted)) =
       Inr \<lparr>u_id = 3, username = ''bob'', hashed_password = ''pw'',
            email = ''bob@example.com'', is_active = True, role = ''viewer''\<rparr>"
  using
    create_user_cases [of example_db "UserCreate ''alice'' ''admin2@example.com'' ''pw'' Omitted"
      "\<lambda>p. p"]
    create_user_cases [of example_db "UserCreate ''bob'' ''alice@example.com'' ''pw'' Omitted"
      "\<lambda>p. p"]
    create_user_cases [of example_db "UserCreate ''bob'' ''bob@example.com'' ''pw'' Omitted"
      "\<lambda>p. p"]
  by (auto simp: UserCreate_def get_user_by_username_def get_user_by_email_def example_db_def
      alice_def admin2_def)

text \<open>
  Claim C5. For every subject and every time-to-live, the token produced by
  \<open>issue_token\<close>, verified at the moment it was issued, yields that subject. Verified once
  its embedded expiry \<open>now + ttl\<close> has passed, the issued token fails with
  \<open>ExpiredToken\<close>, and so does every token whose signature verifies and whose embedded
  expiry has passed. A token whose signature does not verify against the server secret,
  a token with a tampered payload for one, fails with \<open>InvalidToken\<close>.
\<close>

theorem issue_then_verify_token:
  "verify_token sign secret now (issue_token sign secret now subject ttl) = Inr subject
   \<and> (now + int ttl < later \<longrightarrow>
      verify_token sign secret later (issue_token sign secret now subject ttl) = Inl ExpiredToken)
   \<and> (tok_sig tok = sign secret (tok_sub tok, tok_exp tok) \<and> tok_exp tok < later \<longrightarrow>
      verify_token sign secret later tok = Inl ExpiredToken)
   \<and> (tok_sig tok \<noteq> sign secret (tok_sub tok, tok_exp tok) \<longrightarrow>
      verify_token sign secret later tok = Inl InvalidToken)"
  by (simp add: verify_token_def issue_token_def)

theorem issue_then_verify_token_witness:
  "verify_token toy_sign ''key'' 100 (issue_token toy_sign ''key'' 100 ''alice'' 30) =
       Inr ''alice''
   \<and> verify_token toy_sign ''key'' 100 (issue_token toy_sign ''key'' 100 ''alice'' 0) =
       Inr ''alice''
   \<and> (100::int) + int 30 < 131
   \<and> verify_token toy_sign ''key'' 131 (issue_token toy_sign ''key'' 100 ''alice'' 30) =
       Inl ExpiredToken
   \<and> tok_sig ((issue_token toy_sign ''key'' 100 ''alice'' 30)\<lparr>tok_sub := ''admin2''\<rparr>) \<noteq>
       toy_sign ''key'' (''admin2'', 130)
   \<and> verify_token toy_sign ''key'' 100
        ((issue_token toy_sign ''key'' 100 ''alice'' 30)\<lparr>tok_sub := ''admin2''\<rparr>) =
       Inl InvalidToken"
  using
    issue_then_verify_token [of toy_sign "''key''" 100 "''alice''" 30 131
      "issue_token toy_sign ''key'' 100 ''alice'' 30"]
    issue_then_verify_token [of toy_sign "''key''" 100 "''alice''" 0 100
      "(issue_token toy_sign ''key'' 100 ''alice'' 30)\<lparr>tok_sub := ''admin2''\<rparr>"]
  by (simp add: issue_token_def toy_sign_def)

text \<open>
  Password hashing. The original password verifies against every hash produced from
  it, whatever the digest function and whatever salt was drawn. Whether the password
  with an \<open>x\<close> appended is rejected is the question whether the digest function tells
  the two passwords apart under that salt; the model cannot answer it for a digest
  function it does not have.
\<close>

lemma verify_accepts_original: "verify kdf p (hash kdf salt p)"
  by (simp add: verify_def hash_def)

lemma verify_rejects_iff_no_collision:
  "(\<not> verify kdf (p @ ''x'') (hash kdf salt p)) = (kdf salt (p @ ''x'') \<noteq> kdf salt p)"
  by (simp add: verify_def hash_def)

text \<open>
  Roles are stored as supplied. Registration stores the supplied role, and \<open>viewer\<close> when
  the role is omitted or null; role update stores the supplied string; neither checks it.
  So the operations keep every stored role among the three enumerated values as long as
  every supplied role is one of them, and deletion always does.
\<close>

lemma stored_role_is_supplied_role:
  "(create_user h d (UserCreate un em pw rf) = (Inr u, d') \<longrightarrow>
      role u = (case rf of Given s \<Rightarrow> s | _ \<Rightarrow> ''viewer''))
   \<and> (update_user_role d uid r cu = (Inr u, d') \<longrightarrow> role u = r)
   \<and> (roles_valid d \<and> (\<forall>s. rf = Given s \<longrightarrow> valid_role s) \<longrightarrow>
      roles_valid (snd (create_user h d (UserCreate un em pw rf))))
   \<and> (roles_valid d \<and> valid_role r \<longrightarrow> roles_valid (snd (update_user_role d uid r cu)))
   \<and> (roles_valid d \<longrightarrow> roles_valid (snd (delete_user d uid cu)))"
  by (auto simp: create_user_def crud_create_user_def UserCreate_def Let_def
      update_user_role_def crud_update_user_role_def delete_user_def crud_delete_user_def
      roles_valid_def valid_role_def list_all_iff
      split: option.splits if_splits field.splits sum.splits dest: find_SomeD)

text \<open>
  Claim C7. Every stored role is one of \<open>admin\<close>, \<open>editor\<close>, \<open>viewer\<close>, whatever role the
  client supplies to registration or to role update. The code does not keep this:
  registering with the role \<open>superuser\<close> stores a user with that role, and an admin's
  role update to \<open>root\<close> takes a store whose roles are all valid to one where they are
  not.
\<close>

theorem role_outside_enumeration_is_stored:
  "fst (create_user (\<lambda>p. p) empty_db
          (UserCreate ''eve'' ''eve@example.com'' ''pw'' (Given ''superuser''))) =
     Inr \<lparr>u_id = 1, username = ''eve'', hashed_password = ''pw'', email = ''eve@example.com'',
          is_active = True, role = ''superuser''\<rparr>
   \<and> fst (update_user_role example_db 1 ''root'' admin2) = Inr (alice\<lparr>role := ''root''\<rparr>)
   \<and> \<not> valid_role ''superuser'' \<and> \<not> valid_role ''root''
   \<and> roles_valid example_db
   \<and> \<not> roles_valid (snd (update_user_role example_db 1 ''root'' admin2))"
  by (simp add: create_user_def crud_create_user_def UserCreate_def get_user_by_username_def
      get_user_by_email_def empty_db_def update_user_role_def crud_update_user_role_def
      example_lookups valid_role_def roles_valid_def example_db_def alice_def admin2_def
      get_user_def Let_def)

text \<open>
  Claim C8 (as amended). For every uploaded file whose content could be written under
  the upload path joined with the filename, the upload records a document whose title
  is the filename up to its first \<open>.\<close>, and the whole filename when it has none; the
  document carries the filename and the uploader's id. So \<open>a.b.c\<close> gets the title \<open>a\<close>
  and \<open>.hidden\<close> the empty title. When the write fails, the upload fails with the
  exception of the write, and neither the store nor the stored files change: no
  document is recorded.
\<close>

theorem create_document_title:
  "(open_wb writable fs (os_path_join path fname) content = Inr fs' \<longrightarrow>
      create_document writable path d fs fname content cu =
        (Inr \<lparr>d_id = next_document_id d,
              title = (if CHR ''.'' \<in> set fname
                       then takeWhile (\<lambda>c. c \<noteq> CHR ''.'') fname else fname),
              filename = fname, upload_time = upload_time_default d, owner_id = u_id cu\<rparr>,
         d\<lparr>documents := documents d @
              [\<lparr>d_id = next_document_id d,
                title = (if CHR ''.'' \<in> set fname
                         then takeWhile (\<lambda>c. c \<noteq> CHR ''.'') fname else fname),
                filename = fname, upload_time = upload_time_default d, owner_id = u_id cu\<rparr>],
            next_document_id := next_document_id d + 1\<rparr>,
         fs(os_path_join path fname \<mapsto> content)))
   \<and> (open_wb writable fs (os_path_join path fname) content = Inl e \<longrightarrow>
      create_document writable path d fs fname content cu = (Inl e, d, fs))
   \<and> document_title ''a.b.c'' = Inr ''a''
   \<and> document_title ''.hidden'' = Inr []
   \<and> document_title ''README'' = Inr ''README''"
  by (auto simp: create_document_def crud_create_document_def Let_def document_title_eq
      takeWhile_absent open_wb_def split: if_splits)

theorem create_document_title_witness:
  "open_wb all_writable Map.empty (os_path_join ''uploaded_documents'' ''a.b.c'') ''bytes'' =
     Inr [''uploaded_documents/a.b.c'' \<mapsto> ''bytes'']
   \<and> fst (create_document all_writable ''uploaded_documents'' example_db Map.empty
            ''a.b.c'' ''bytes'' alice) =
     Inr \<lparr>d_id = 2, title = ''a'', filename = ''a.b.c'', upload_time = 0, owner_id = 1\<rparr>
   \<and> open_wb all_writable Map.empty (os_path_join ''uploaded_documents'' ''.hidden'') ''bytes'' =
     Inr [''uploaded_documents/.hidden'' \<mapsto> ''bytes'']
   \<and> fst (create_document all_writable ''uploaded_documents'' example_db Map.empty
            ''.hidden'' ''bytes'' alice) =
     Inr \<lparr>d_id = 2, title = [], filename = ''.hidden'', upload_time = 0, owner_id = 1\<rparr>
   \<and> open_wb all_writable Map.empty (os_path_join ''uploaded_documents'' ''README'') ''bytes'' =
     Inr [''uploaded_documents/README'' \<mapsto> ''bytes'']
   \<and> fst (create_document all_writable ''uploaded_documents'' example_db Map.empty
            ''README'' ''bytes'' alice) =
     Inr \<lparr>d_id = 2, title = ''README'', filename = ''README'', upload_time = 0, owner_id = 1\<rparr>
   \<and> open_wb all_writable Map.empty (os_path_join ''uploaded_documents'' []) ''bytes'' =
     Inl OSError
   \<and> create_document all_writable ''uploaded_documents'' example_db Map.empty
        [] ''bytes'' alice =
     (Inl OSError, example_db, Map.empty)"
proof -
  have a: "open_wb all_writable Map.empty (os_path_join ''uploaded_documents'' ''a.b.c'')
             ''bytes'' = Inr [''uploaded_documents/a.b.c'' \<mapsto> ''bytes'']"
    by (simp add: open_wb_def os_path_join_def last_component_def all_writable_def)
  have h: "open_wb all_writable Map.empty (os_path_join ''uploaded_documents'' ''.hidden'')
             ''bytes'' = Inr [''uploaded_documents/.hidden'' \<mapsto> ''bytes'']"
    by (simp add: open_wb_def os_path_join_def last_component_def all_writable_def)
  have r: "open_wb all_writable Map.empty (os_path_join ''uploaded_documents'' ''README'')
             ''bytes'' = Inr [''uploaded_documents/README'' \<mapsto> ''bytes'']"
    by (simp add: open_wb_def os_path_join_def last_component_def all_writable_def)
  have n: "open_wb all_writable Map.empty (os_path_join ''uploaded_documents'' [])
             ''bytes'' = Inl OSError"
    by (simp add: open_wb_def os_path_join_def last_component_def all_writable_def)
  from
    create_document_title [of all_writable Map.empty "''uploaded_documents''" "''a.b.c''"
      "''bytes''" "[''uploaded_documents/a.b.c'' \<mapsto> ''bytes'']" example_db alice OSError,
      THEN conjunct1, THEN mp, OF a]
    create_document_title [of all_writable Map.empty "''uploaded_documents''" "''.hidden''"
      "''bytes''" "[''uploaded_documents/.hidden'' \<mapsto> ''bytes'']" example_db alice OSError,
      THEN conjunct1, THEN mp, OF h]
    create_document_title [of all_writable Map.empty "''uploaded_documents''" "''README''"
      "''bytes''" "[''uploaded_documents/README'' \<mapsto> ''bytes'']" example_db alice OSError,
      THEN conjunct1, THEN mp, OF r]
    create_document_title [of all_writable Map.empty "''uploaded_documents''" "[]"
      "''bytes''" Map.empty example_db alice OSError,
      THEN conjunct2, THEN conjunct1, THEN mp, OF n]
    a h r n
  show ?thesis
    by (simp add: example_db_def alice_def)
qed

theorem upload_of_directory_name_counterexample:
  "CHR ''.'' \<in> set ''..''
   \<and> create_document all_writable ''uploaded_documents'' example_db Map.empty
        ''..'' ''bytes'' alice =
     (Inl OSError, example_db, Map.empty)
   \<and> create_document all_writable ''uploaded_documents'' example_db Map.empty
        ''.'' ''bytes'' alice =
     (Inl OSError, example_db, Map.empty)"
  by (simp add: create_document_def open_wb_def os_path_join_def last_component_def Let_def)

text \<open>
  Claim C9. Starting from the empty dictionary, whatever triggers, background
  executions (whole, or their assignments interleaved with other steps) and status
  queries happen, every task in the dictionary has status \<open>pending\<close>, \<open>processing\<close> or
  \<open>completed\<close>; none is ever \<open>failed\<close>.
\<close>

theorem failed_is_unreachable:
  "reachable ts \<Longrightarrow> ts did = Some t \<Longrightarrow>
   status t \<in> set [''pending'', ''processing'', ''completed''] \<and> status t \<noteq> ''failed''"
  using reachable_statuses_ok [of ts] by (fastforce simp: statuses_ok_def)

theorem failed_is_unreachable_witness:
  "reachable [1 \<mapsto> \<lparr>document_id = 1, status = ''completed'',
                     message = Some ''Ingestion completed successfully.''\<rparr>]
   \<and> status \<lparr>document_id = 1, status = ''completed'',
             message = Some ''Ingestion completed successfully.''\<rparr>
       \<in> set [''pending'', ''processing'', ''completed'']
   \<and> status \<lparr>document_id = 1, status = ''completed'',
             message = Some ''Ingestion completed successfully.''\<rparr> \<noteq> ''failed''"
proof -
  let ?p = "\<lparr>document_id = 1, status = ''pending'', message = None\<rparr>"
  let ?c = "\<lparr>document_id = 1, status = ''completed'',
             message = Some ''Ingestion completed successfully.''\<rparr>"
  have t: "trigger_ingestion example_db Map.empty 1 alice = (Inr ?p, [1 \<mapsto> ?p], [1])"
    by (simp add: trigger_ingestion_def example_lookups IngestionTask_def Let_def)
  have r1: "reachable [1 \<mapsto> ?p]"
    by (rule reachable.trigger [OF reachable.initial t])
  have p: "process_ingestion_task [1 \<mapsto> ?p] 1 =
             Inr [[1 \<mapsto> ?p\<lparr>status := ''processing''\<rparr>],
                  [1 \<mapsto> ?p\<lparr>status := ''completed''\<rparr>], [1 \<mapsto> ?c]]"
    by (simp add: process_ingestion_task_def assign_status_def assign_message_def)
  have r2: "reachable [1 \<mapsto> ?c]"
    by (rule reachable.run [OF r1 p]) simp
  from failed_is_unreachable [OF r2, of 1 ?c] r2 show ?thesis by simp
qed

text \<open>
  Claim C10. For every calling user and every existing document, deletion succeeds,
  returns the document and removes it from the store; reading it returns it, listing
  returns the page of all documents, and download serves the stored file when it is
  there. None of the results depends on the caller: neither the caller's role nor the
  document's owner is looked at.
\<close>

theorem document_operations_ignore_caller:
  "get_document d did = Some doc \<longrightarrow>
     delete_document d did cu =
       (Inr (Some doc), d\<lparr>documents := filter (\<lambda>x. d_id x \<noteq> did) (documents d)\<rparr>)
   \<and> get_document (snd (delete_document d did cu)) did = None
   \<and> read_document d did cu = Inr doc
   \<and> read_documents d skip limit cu = take limit (drop skip (documents d))
   \<and> download_document path d fs did cu =
       (if fs (os_path_join path (filename doc)) = None
        then Inl (NotFound ''File not found on server'')
        else Inr (os_path_join path (filename doc), filename doc))"
  by (auto simp: delete_document_def crud_delete_document_def get_document_def
      read_document_def read_documents_def get_documents_def download_document_def
      NotFound_def Let_def find_filter_removed [where k = d_id])

theorem document_operations_ignore_caller_witness:
  "get_document example_db 1 = Some report
   \<and> role alice = ''viewer'' \<and> owner_id report \<noteq> u_id alice
   \<and> delete_document example_db 1 alice = (Inr (Some report), example_db\<lparr>documents := []\<rparr>)
   \<and> get_document (snd (delete_document example_db 1 alice)) 1 = None
   \<and> read_document example_db 1 alice = Inr report
   \<and> read_documents example_db 0 100 alice = [report]
   \<and> download_document ''uploaded_documents'' example_db
        [''uploaded_documents/report.txt'' \<mapsto> ''bytes''] 1 alice =
       Inr (''uploaded_documents/report.txt'', ''report.txt'')"
proof -
  have g: "get_document example_db 1 = Some report"
    by (simp add: example_lookups)
  from document_operations_ignore_caller [of example_db 1 report alice 0 100
      "''uploaded_documents''" "[''uploaded_documents/report.txt'' \<mapsto> ''bytes'']",
      THEN mp, OF g] g
  show ?thesis
    by (simp add: example_db_def report_def alice_def os_path_join_def get_document_def)
qed

end
